theory Spec2Isabelle
  imports Complex_Main "HOL-Library.Sublist"
begin

section \<open>Python values and strings\<close>

text \<open>
  A Python \<open>str\<close> is modelled as a \<open>string\<close> whose characters are the code points below 256.
  A dictionary entry read with \<open>d.get(key)\<close> has three states that the code tells apart:
  the key is absent, the key holds \<open>None\<close>, or the key holds a value.
\<close>

datatype 'a field = Missing | Null | Val 'a

text \<open>\<open>d.get(key)\<close>: \<open>None\<close> when the key is absent or holds \<open>None\<close>.\<close>

fun get :: "'a field \<Rightarrow> 'a option" where
  "get Missing = None"
| "get Null = None"
| "get (Val v) = Some v"

text \<open>The exceptions the modelled code can raise; \<open>str_exn\<close> is Python's \<open>str(e)\<close>.\<close>

datatype exn = KeyError string | TypeError string | Exception string

fun str_exn :: "exn \<Rightarrow> string" where
  "str_exn (KeyError k) = CHR 0x27 # k @ [CHR 0x27]"
| "str_exn (TypeError m) = m"
| "str_exn (Exception m) = m"

text \<open>
  Whitespace as \<open>str.strip()\<close> and \<open>str.split()\<close> see it: the code points 9-13, 28-32, 133
  and 160.
\<close>

definition is_space :: "char \<Rightarrow> bool" where
  "is_space c =
     (let n = (of_char c :: nat)
      in (9 \<le> n \<and> n \<le> 13) \<or> (28 \<le> n \<and> n \<le> 32) \<or> n = 133 \<or> n = 160)"

definition strip :: "string \<Rightarrow> string" where
  "strip s = rev (dropWhile is_space (rev (dropWhile is_space s)))"

text \<open>\<open>s.split()\<close>: the maximal runs of non-whitespace, in order.\<close>

fun split_ws :: "string \<Rightarrow> string \<Rightarrow> string list" where
  "split_ws cur [] = (if cur = [] then [] else [cur])"
| "split_ws cur (c # cs) =
     (if is_space c
      then (if cur = [] then split_ws [] cs else cur # split_ws [] cs)
      else split_ws (cur @ [c]) cs)"

definition split :: "string \<Rightarrow> string list" where
  "split s = split_ws [] s"

text \<open>\<open>sep.join(parts)\<close>.\<close>

fun join :: "string \<Rightarrow> string list \<Rightarrow> string" where
  "join sep [] = []"
| "join sep [p] = p"
| "join sep (p # q # ps) = p @ sep @ join sep (q # ps)"

text \<open>
  \<open>s.replace(old, new)\<close> for a non-empty \<open>old\<close>: every non-overlapping occurrence, scanning
  from the left. The code only calls it with constant non-empty patterns.
\<close>

function replace :: "string \<Rightarrow> string \<Rightarrow> string \<Rightarrow> string" where
  "replace old new [] = []"
| "replace old new (c # cs) =
     (if old \<noteq> [] \<and> prefix old (c # cs)
      then new @ replace old new (drop (length old) (c # cs))
      else c # replace old new cs)"
  by pat_completeness auto
termination
  by (relation "measure (\<lambda>(old, new, s). length s)") auto

text \<open>\<open>s.lower()\<close> on the letters A-Z; the keyword tables below are lower-case ASCII.\<close>

definition lower_char :: "char \<Rightarrow> char" where
  "lower_char c =
     (let n = (of_char c :: nat)
      in if 65 \<le> n \<and> n \<le> 90 then char_of (n + 32) else c)"

definition lower :: "string \<Rightarrow> string" where
  "lower s = map lower_char s"

text \<open>Decimal rendering of integers, as \<open>str(n)\<close> and the f-string fields do it.\<close>

definition digit_char :: "nat \<Rightarrow> char" where
  "digit_char d = char_of (48 + d)"

function str_nat :: "nat \<Rightarrow> string" where
  "str_nat n = (if n < 10 then [digit_char n] else str_nat (n div 10) @ [digit_char (n mod 10)])"
  by pat_completeness auto
termination
  by (relation "measure id") auto

declare str_nat.simps [simp del]

definition str_int :: "int \<Rightarrow> string" where
  "str_int i = (if i < 0 then CHR ''-'' # str_nat (nat (- i)) else str_nat (nat i))"

text \<open>\<open>f"{n:03d}"\<close> for a natural number: at least three digits, padded with zeros.\<close>

definition fmt_03d :: "nat \<Rightarrow> string" where
  "fmt_03d n = (let s = str_nat n in replicate (3 - length s) CHR ''0'' @ s)"

section \<open>Review validator and cleaner (service/ReviewCleaner.py)\<close>

text \<open>
  A scraped review is a dictionary; the fields the cleaner and the deduplication index read
  are kept, each with the three states of a dictionary entry.
\<close>

record review =
  r_text :: "string field"
  r_reviewText :: "string field"
  r_reviewImageUrls :: "string list field"
  r_photos :: "string list field"
  r_reviewerId :: "string field"
  r_publishedAtDate :: "string field"

text \<open>\<open>review.get("text") or review.get("reviewText") or ""\<close>: an empty string is falsy.\<close>

definition text_of :: "review \<Rightarrow> string" where
  "text_of review =
     (case get (r_text review) of
        Some s \<Rightarrow>
          if s \<noteq> [] then s
          else (case get (r_reviewText review) of Some t \<Rightarrow> t | None \<Rightarrow> [])
      | None \<Rightarrow> (case get (r_reviewText review) of Some t \<Rightarrow> t | None \<Rightarrow> []))"

definition is_valid_review :: "review \<Rightarrow> bool" where
  "is_valid_review review = (length (strip (text_of review)) \<ge> 3)"

definition clean_review_text :: "string \<Rightarrow> string" where
  "clean_review_text s =
     (if s = [] then []
      else strip (replace ''(Original)'' []
                   (replace ''(Translated by Google)'' [] (join '' '' (split s)))))"

text \<open>\<open>bool(review.get("reviewImageUrls") or review.get("photos"))\<close>: an empty list is falsy.\<close>

definition has_images :: "review \<Rightarrow> bool" where
  "has_images review =
     (case get (r_reviewImageUrls review) of
        Some (u # us) \<Rightarrow> True
      | _ \<Rightarrow> (case get (r_photos review) of Some (p # ps) \<Rightarrow> True | _ \<Rightarrow> False))"

definition has_only_images :: "review \<Rightarrow> bool" where
  "has_only_images review =
     (has_images review \<and> \<not> (length (strip (text_of review)) \<ge> 3))"

record cleaning_stats =
  total :: nat
  valid :: nat
  no_text :: nat
  only_images :: nat
  too_short :: nat

text \<open>
  The assignment \<open>review["text"] = cls.clean_review_text(text)\<close> of the loop body, where
  \<open>text\<close> is the stripped text of the record.
\<close>

definition cleaned :: "review \<Rightarrow> review" where
  "cleaned review = review\<lparr>r_text := Val (clean_review_text (strip (text_of review)))\<rparr>"

text \<open>
  The loop of \<open>filter_reviews\<close>. The assignment writes into the caller's dictionary, so the
  loop returns three things: the input list as it stands after the call, the list
  \<open>valid_reviews\<close> (whose elements are those same dictionaries), and the statistics.
\<close>

fun filter_loop ::
  "review list \<Rightarrow> review list \<Rightarrow> cleaning_stats \<Rightarrow> review list \<times> review list \<times> cleaning_stats"
where
  "filter_loop [] valid_reviews st = ([], valid_reviews, st)"
| "filter_loop (review # rest) valid_reviews st =
     (if has_only_images review then
        (case filter_loop rest valid_reviews (st\<lparr>only_images := only_images st + 1\<rparr>) of
           (rest', out) \<Rightarrow> (review # rest', out))
      else if strip (text_of review) = [] then
        (case filter_loop rest valid_reviews (st\<lparr>no_text := no_text st + 1\<rparr>) of
           (rest', out) \<Rightarrow> (review # rest', out))
      else if length (strip (text_of review)) < 3 then
        (case filter_loop rest valid_reviews (st\<lparr>too_short := too_short st + 1\<rparr>) of
           (rest', out) \<Rightarrow> (review # rest', out))
      else
        (case filter_loop rest (valid_reviews @ [cleaned review]) (st\<lparr>valid := valid st + 1\<rparr>) of
           (rest', out) \<Rightarrow> (cleaned review # rest', out)))"

definition filter_reviews :: "review list \<Rightarrow> review list \<times> review list \<times> cleaning_stats" where
  "filter_reviews reviews =
     filter_loop reviews []
       \<lparr>total = length reviews, valid = 0, no_text = 0, only_images = 0, too_short = 0\<rparr>"


definition valid_reviews :: "review list \<times> review list \<times> cleaning_stats \<Rightarrow> review list" where
  "valid_reviews res = fst (snd res)"

definition stats :: "review list \<times> review list \<times> cleaning_stats \<Rightarrow> cleaning_stats" where
  "stats res = snd (snd res)"

section \<open>Deduplication index (service/ReviewScraper.py)\<close>

text \<open>
  \<open>review.get(key, '')\<close> rendered inside an f-string: the default for an absent key, the text
  \<open>None\<close> for a key holding \<open>None\<close>.
\<close>

fun fmt_field :: "string field \<Rightarrow> string" where
  "fmt_field Missing = []"
| "fmt_field Null = ''None''"
| "fmt_field (Val v) = v"

text \<open>
  \<open>_get_review_id\<close>. Python's built-in \<open>hash\<close> on strings is a parameter \<open>h\<close>. The slice
  \<open>review.get('text', '')[:50]\<close> raises \<open>TypeError\<close> when the key holds \<open>None\<close>: the default
  only replaces an absent key.
\<close>

definition get_review_id :: "(string \<Rightarrow> int) \<Rightarrow> review \<Rightarrow> exn + string" where
  "get_review_id h review =
     (let reviewer_id = fmt_field (r_reviewerId review);
          published_at = fmt_field (r_publishedAtDate review)
      in case r_text review of
           Null \<Rightarrow>
             Inl (TypeError (CHR 0x27 # ''NoneType'' @ CHR 0x27 # '' object is not subscriptable''))
         | Missing \<Rightarrow>
             Inr (reviewer_id @ ''_'' @ published_at @ ''_'' @ str_int (h (take 50 [])))
         | Val t \<Rightarrow>
             Inr (reviewer_id @ ''_'' @ published_at @ ''_'' @ str_int (h (take 50 t))))"

text \<open>
  The scraper object holds the index in memory (\<open>scraped_review_ids\<close>); \<open>cache_file\<close> is what
  the cache file holds on disk, as the index it decodes to, \<open>None\<close> when the file is missing
  or unreadable.
\<close>

record scraper =
  scraped_review_ids :: "string \<rightharpoonup> string set"
  cache_file :: "(string \<rightharpoonup> string set) option"

definition load_cache :: "(string \<rightharpoonup> string set) option \<Rightarrow> (string \<rightharpoonup> string set)" where
  "load_cache file = (case file of Some data \<Rightarrow> data | None \<Rightarrow> Map.empty)"

text \<open>
  \<open>_save_cache\<close>. Opening or writing the file can fail; the \<open>except\<close> branch prints the error
  and returns. \<open>write_ok\<close> says whether the write goes through; a failed write is modelled as
  leaving the file as it was.
\<close>

definition save_cache :: "bool \<Rightarrow> scraper \<Rightarrow> scraper" where
  "save_cache write_ok s =
     (if write_ok then s\<lparr>cache_file := Some (scraped_review_ids s)\<rparr> else s)"

text \<open>
  The loop of \<open>_filter_new_reviews\<close>. \<open>existing_ids\<close> is the very set object stored in the
  index, so on an exception the fingerprints inserted so far stay in the index: the loop
  returns the set as it stands together with the result or the exception.
\<close>

fun filter_new_loop ::
  "(string \<Rightarrow> int) \<Rightarrow> review list \<Rightarrow> review list \<Rightarrow> string set
     \<Rightarrow> (exn + review list) \<times> string set"
where
  "filter_new_loop h [] new_reviews existing_ids = (Inr new_reviews, existing_ids)"
| "filter_new_loop h (review # rest) new_reviews existing_ids =
     (case get_review_id h review of
        Inl e \<Rightarrow> (Inl e, existing_ids)
      | Inr review_id \<Rightarrow>
          if review_id \<notin> existing_ids
          then filter_new_loop h rest (new_reviews @ [review]) (insert review_id existing_ids)
          else filter_new_loop h rest new_reviews existing_ids)"

text \<open>The set of a place, created empty when the place is not in the index yet.\<close>

definition ids_of :: "scraper \<Rightarrow> string \<Rightarrow> string set" where
  "ids_of s place_id = (case scraped_review_ids s place_id of Some ids \<Rightarrow> ids | None \<Rightarrow> {})"

definition filter_new_reviews ::
  "(string \<Rightarrow> int) \<Rightarrow> scraper \<Rightarrow> review list \<Rightarrow> string \<Rightarrow> (exn + review list) \<times> scraper"
where
  "filter_new_reviews h s reviews place_id =
     (case filter_new_loop h reviews [] (ids_of s place_id) of
        (res, ids) \<Rightarrow> (res, s\<lparr>scraped_review_ids := (scraped_review_ids s)(place_id \<mapsto> ids)\<rparr>))"

text \<open>
  The deduplication step of \<open>scrape_location\<close> (lines 111-121): \<open>place_id\<close> is what the
  scraped location carries (\<open>None\<close> when it has none), the step runs when \<open>skip_duplicates\<close>
  is set and \<open>place_id\<close> is truthy, and the cache is saved after filtering. It returns the
  new reviews and the duplicate count. An exception of the filter leaves the \<open>try\<close> block of
  \<open>scrape_location\<close> before the save.
\<close>

definition scrape_location_dedup ::
  "(string \<Rightarrow> int) \<Rightarrow> bool \<Rightarrow> scraper \<Rightarrow> review list \<Rightarrow> string option \<Rightarrow> bool
     \<Rightarrow> (exn + review list \<times> nat) \<times> scraper"
where
  "scrape_location_dedup h write_ok s reviews place_id skip_duplicates =
     (case place_id of
        Some p \<Rightarrow>
          if skip_duplicates \<and> p \<noteq> [] then
            (case filter_new_reviews h s reviews p of
               (Inl e, s') \<Rightarrow> (Inl e, s')
             | (Inr new_reviews, s') \<Rightarrow>
                 (Inr (new_reviews, length reviews - length new_reviews), save_cache write_ok s'))
          else (Inr (reviews, 0), s)
      | None \<Rightarrow> (Inr (reviews, 0), s))"

definition reset_cache_for_location :: "bool \<Rightarrow> scraper \<Rightarrow> string \<Rightarrow> bool \<times> scraper" where
  "reset_cache_for_location write_ok s place_id =
     (if place_id \<in> dom (scraped_review_ids s)
      then (True, save_cache write_ok
                    (s\<lparr>scraped_review_ids := (scraped_review_ids s)(place_id := None)\<rparr>))
      else (False, s))"


text \<open>
  The reviews of a list that are new with respect to a set \<open>S\<close> of fingerprints, for a
  fingerprint function \<open>fp\<close>: those at a position \<open>i\<close> whose fingerprint is neither in \<open>S\<close> nor
  carried by a review at an earlier position, in the order of the list.
\<close>

definition first_seen :: "(review \<Rightarrow> string) \<Rightarrow> string set \<Rightarrow> review list \<Rightarrow> review list" where
  "first_seen fp S rs =
     map (\<lambda>i. rs ! i)
       (filter (\<lambda>i. fp (rs ! i) \<notin> S \<union> fp ` set (take i rs)) [0..<length rs])"

section \<open>Sentiment engine (service/SentimentAnalyzer.py)\<close>

text \<open>
  Python floats are modelled as real numbers: sums, products and comparisons are exact.
  \<open>round(x, 2)\<close> rounds to the nearest multiple of 0.01, a tie to the even one.
\<close>

definition round_half_even :: "real \<Rightarrow> int" where
  "round_half_even x =
     (let f = \<lfloor>x\<rfloor>; d = x - of_int f
      in if d < 1 / 2 then f
         else if 1 / 2 < d then f + 1
         else if even f then f else f + 1)"

definition round2 :: "real \<Rightarrow> real" where
  "round2 x = of_int (round_half_even (x * 100)) / 100"

text \<open>\<open>f"{x:.2f}"\<close>: sign, integer part, a point and two decimals.\<close>

definition fmt_2f :: "real \<Rightarrow> string" where
  "fmt_2f x =
     (let n = round_half_even (x * 100); m = nat \<bar>n\<bar>
      in (if n < 0 then ''-'' else []) @ str_nat (m div 100) @ ''.''
         @ [digit_char (m mod 100 div 10), digit_char (m mod 10)])"

text \<open>The keyword tables of \<open>fallback_analysis\<close>.\<close>

definition POSITIVE_strong :: "string list" where
  "POSITIVE_strong =
     [''luar biasa'', ''sangat bagus'', ''excellent'', ''perfect'', ''terbaik'', ''sempurna'',
      ''istimewa'']"

definition POSITIVE_medium :: "string list" where
  "POSITIVE_medium =
     [''bagus'', ''baik'', ''enak'', ''puas'', ''senang'', ''recommended'', ''mantap'', ''ramah'',
      ''cepat'', ''bersih'', ''nyaman'']"

definition POSITIVE_weak :: "string list" where
  "POSITIVE_weak = [''lumayan'', ''cukup'', ''ok'', ''oke'']"

definition NEGATIVE_strong :: "string list" where
  "NEGATIVE_strong =
     [''sangat buruk'', ''terrible'', ''parah banget'', ''mengecewakan sekali'', ''worst'']"

definition NEGATIVE_medium :: "string list" where
  "NEGATIVE_medium =
     [''buruk'', ''jelek'', ''kecewa'', ''lambat'', ''lama'', ''mahal'', ''kotor'', ''tidak enak'',
      ''kurang'', ''rusak'']"

definition NEGATIVE_weak :: "string list" where
  "NEGATIVE_weak = [''tidak'', ''kurang'', ''biasa aja'']"

definition THEMES :: "(string \<times> string list) list" where
  "THEMES =
     [(''Kualitas Produk'', [''makanan'', ''rasa'', ''enak'', ''menu'', ''produk'', ''lezat'', ''fresh'']),
      (''Kualitas Pelayanan'', [''pelayanan'', ''service'', ''ramah'', ''staff'', ''karyawan'', ''sopan'']),
      (''Harga & Value'', [''harga'', ''mahal'', ''murah'', ''value'', ''terjangkau'']),
      (''Kecepatan Layanan'', [''cepat'', ''lama'', ''tunggu'', ''antri'', ''lambat'']),
      (''Kebersihan'', [''bersih'', ''kotor'', ''higienis'', ''rapi'']),
      (''Suasana'', [''suasana'', ''tempat'', ''nyaman'', ''lokasi'', ''atmosfer''])]"

text \<open>
  \<open>sum(weight for w in words if w in text)\<close> with a constant weight: the weight times the
  number of keywords that occur in the text (\<open>w in text\<close> is the substring test).
\<close>

definition hits :: "string list \<Rightarrow> string \<Rightarrow> nat" where
  "hits ws t = length (filter (\<lambda>w. sublist w t) ws)"

definition pos_score :: "string \<Rightarrow> real" where
  "pos_score t =
     min ((2 * real (hits POSITIVE_strong t) + 1 * real (hits POSITIVE_medium t)
           + 0.3 * real (hits POSITIVE_weak t)) / 5) 1"

definition neg_score :: "string \<Rightarrow> real" where
  "neg_score t =
     min ((2 * real (hits NEGATIVE_strong t) + 1 * real (hits NEGATIVE_medium t)
           + 0.3 * real (hits NEGATIVE_weak t)) / 5) 1"

text \<open>\<open>final_score\<close> of a review: \<open>text\<close> is the lower-cased review.\<close>

definition final_score :: "string \<Rightarrow> int \<Rightarrow> real" where
  "final_score review rating =
     (let t = lower review;
          text_score = (pos_score t - neg_score t) * 0.7;
          rating_score = (of_int rating - 3) / 2 * 0.3
      in text_score + rating_score)"

definition sentiment_of :: "real \<Rightarrow> string" where
  "sentiment_of score =
     (if score > 0.2 then ''Positive'' else if score < - 0.2 then ''Negative'' else ''Neutral'')"

definition themes_of :: "string \<Rightarrow> string list" where
  "themes_of t =
     (let themes = map fst (filter (\<lambda>(theme, keywords). list_ex (\<lambda>kw. sublist kw t) keywords) THEMES)
      in if themes = [] then [''Pengalaman Umum''] else themes)"

definition reasons_of :: "string \<Rightarrow> int \<Rightarrow> real \<Rightarrow> real \<Rightarrow> string list" where
  "reasons_of sentiment rating pos neg =
     (if sentiment = ''Positive'' then
        [''Review menunjukkan apresiasi tinggi (positif: '' @ fmt_2f pos @ '')'']
        @ (if rating \<ge> 4
           then [''Rating '' @ str_int rating @ ''/5 mengkonfirmasi kepuasan pelanggan'']
           else [])
        @ [''Tone keseluruhan positif dan merekomendasikan'']
      else if sentiment = ''Negative'' then
        [''Review mengandung keluhan signifikan (negatif: '' @ fmt_2f neg @ '')'']
        @ (if rating \<le> 2
           then [''Rating '' @ str_int rating @ ''/5 menunjukkan ketidakpuasan serius'']
           else [])
        @ [''Customer mengekspresikan kekecewaan yang perlu ditindaklanjuti'']
      else
        [''Review menunjukkan pengalaman standar'',
         ''Rating '' @ str_int rating @ ''/5 berada di level netral'',
         ''Balance antara positif ('' @ fmt_2f pos @ '') dan negatif ('' @ fmt_2f neg @ '')''])"

text \<open>The suggestion texts, without the pictograph that opens each of them in the source.\<close>

definition suggestions_of :: "string \<Rightarrow> string list \<Rightarrow> string list" where
  "suggestions_of sentiment themes =
     (if sentiment = ''Negative'' then
        [''URGENT: Follow-up customer untuk resolve issue'']
        @ (if ''Kualitas Pelayanan'' \<in> set themes
           then [''Training dan evaluasi ulang tim service''] else [])
        @ (if ''Kecepatan Layanan'' \<in> set themes
           then [''Optimasi workflow untuk reduce waiting time''] else [])
        @ [''Tawarkan kompensasi untuk restore trust'']
      else if sentiment = ''Positive'' then
        [''Kirim thank you message untuk strengthen relationship'',
         ''Jadikan testimoni untuk marketing'',
         ''Maintain excellent quality yang sudah diberikan'']
      else
        [''Monitor trend untuk identify improvement'',
         ''Proactive engagement untuk understand expectations'',
         ''Follow-up survey untuk detailed feedback''])"

text \<open>
  The three readings of \<open>datetime.now()\<close> that one analysis call makes, in microseconds: at
  its start, when the processing time is taken, and for the timestamp (whose ISO rendering
  is not modelled).
\<close>

record clock =
  t_start :: int
  t_end :: int
  t_stamp :: int

definition processing_time_of :: "clock \<Rightarrow> real" where
  "processing_time_of clk = round2 (of_int (t_end clk - t_start clk) / 1000)"

text \<open>The dictionary that \<open>fallback_analysis\<close> returns: these twelve keys and no other.\<close>

record fallback_result =
  fb_id :: "string option"
  fb_review_text :: string
  fb_rating :: int
  fb_sentiment :: string
  fb_sentiment_score :: real
  fb_themes :: "string list"
  fb_analysis_reasons :: "string list"
  fb_ai_suggestions :: "string list"
  fb_processing_time_ms :: real
  fb_timestamp :: int
  fb_source :: string
  fb_note :: string

definition fallback_analysis ::
  "clock \<Rightarrow> string \<Rightarrow> int \<Rightarrow> string option \<Rightarrow> string \<Rightarrow> fallback_result"
where
  "fallback_analysis clk review rating review_id error_msg =
     (let t = lower review;
          score = final_score review rating;
          sentiment = sentiment_of score;
          themes = themes_of t
      in \<lparr>fb_id = review_id,
          fb_review_text = review,
          fb_rating = rating,
          fb_sentiment = sentiment,
          fb_sentiment_score = round2 (max (- 1) (min 1 score)),
          fb_themes = take 5 themes,
          fb_analysis_reasons = reasons_of sentiment rating (pos_score t) (neg_score t),
          fb_ai_suggestions = take 5 (suggestions_of sentiment themes),
          fb_processing_time_ms = processing_time_of clk,
          fb_timestamp = t_stamp clk,
          fb_source = ''rule_based_fallback'',
          fb_note = (if error_msg \<noteq> [] then ''Fallback used: '' @ error_msg
                     else ''Rule-based analysis'')\<rparr>)"

text \<open>
  The remote path. A parsed JSON value, and \<open>result[key]\<close> on it: \<open>KeyError\<close> on an object
  without the key, \<open>TypeError\<close> on anything that is not an object (its message is
  abbreviated here; every exception of the block is handled alike).
\<close>

datatype json =
    JNull
  | JBool bool
  | JNum real
  | JStr string
  | JArr "json list"
  | JObj "(string \<times> json) list"

fun getitem :: "json \<Rightarrow> string \<Rightarrow> exn + json" where
  "getitem (JObj kvs) k = (case map_of kvs k of Some v \<Rightarrow> Inr v | None \<Rightarrow> Inl (KeyError k))"
| "getitem (JArr vs) k = Inl (TypeError ''list indices must be integers or slices, not str'')"
| "getitem (JStr s) k = Inl (TypeError ''string indices must be integers'')"
| "getitem v k = Inl (TypeError ''object is not subscriptable'')"

text \<open>
  What the engine reaches outside the repository. \<open>client\<close> is the module-level client, \<open>None\<close>
  when no token is configured; applied to the review and the rating (which determine the
  prompt) it stands for the whole expression
  \<open>client.complete(...).choices[0].message.content.strip()\<close> and gives the stripped content or
  the message of the exception raised on the way. \<open>json_loads\<close> is \<open>json.loads\<close>: the parsed
  value or the message of its exception.
\<close>

record engine =
  client :: "(string \<Rightarrow> int \<Rightarrow> string + string) option"
  json_loads :: "string \<Rightarrow> string + json"

definition fence :: string where
  "fence = replicate 3 (CHR 0x60)"

definition strip_fences :: "string \<Rightarrow> string" where
  "strip_fences content =
     (if prefix (fence @ ''json'') content
      then strip (replace fence [] (replace (fence @ ''json'') [] content))
      else if prefix fence content then strip (replace fence [] content)
      else content)"

text \<open>The dictionary that the remote path returns.\<close>

record remote_result =
  rm_id :: "string option"
  rm_review_text :: string
  rm_rating :: int
  rm_reviewer_name :: "string option"
  rm_review_at :: "string option"
  rm_sentiment :: json
  rm_sentiment_score :: json
  rm_themes :: json
  rm_analysis_reasons :: json
  rm_ai_suggestions :: json
  rm_processing_time_ms :: real
  rm_timestamp :: int
  rm_source :: string
  rm_is_google :: bool

text \<open>The body of the \<open>try\<close> block of \<open>analyze_with_github\<close>: its result, or the exception.\<close>

definition remote_attempt ::
  "engine \<Rightarrow> clock \<Rightarrow> string \<Rightarrow> int \<Rightarrow> string option \<Rightarrow> string option \<Rightarrow> string option \<Rightarrow> bool
     \<Rightarrow> exn + remote_result"
where
  "remote_attempt eng clk review rating review_id reviewer_name review_at is_google =
     (case client eng of
        None \<Rightarrow> Inl (Exception ''GitHub Models client not initialized. Check GITHUB_TOKEN.'')
      | Some client_complete \<Rightarrow>
          (case client_complete review rating of
             Inl msg \<Rightarrow> Inl (Exception msg)
           | Inr content \<Rightarrow>
               (case json_loads eng (strip_fences content) of
                  Inl msg \<Rightarrow> Inl (Exception msg)
                | Inr result \<Rightarrow>
                    (case getitem result ''sentiment'' of Inl e \<Rightarrow> Inl e | Inr sentiment \<Rightarrow>
                    (case getitem result ''sentiment_score'' of Inl e \<Rightarrow> Inl e | Inr score \<Rightarrow>
                    (case getitem result ''themes'' of Inl e \<Rightarrow> Inl e | Inr themes \<Rightarrow>
                    (case getitem result ''analysis_reasons'' of Inl e \<Rightarrow> Inl e | Inr reasons \<Rightarrow>
                    (case getitem result ''ai_suggestions'' of Inl e \<Rightarrow> Inl e | Inr suggestions \<Rightarrow>
                       Inr \<lparr>rm_id = review_id,
                            rm_review_text = review,
                            rm_rating = rating,
                            rm_reviewer_name = reviewer_name,
                            rm_review_at = review_at,
                            rm_sentiment = sentiment,
                            rm_sentiment_score = score,
                            rm_themes = themes,
                            rm_analysis_reasons = reasons,
                            rm_ai_suggestions = suggestions,
                            rm_processing_time_ms = processing_time_of clk,
                            rm_timestamp = t_stamp clk,
                            rm_source = ''github_models'',
                            rm_is_google = is_google\<rparr>))))))))"

text \<open>What an analysis call returns: the dictionary of the remote path or of the fallback.\<close>

datatype analysis = Remote remote_result | Fallback fallback_result

text \<open>
  \<open>analyze_with_github\<close>: the \<open>try\<close> block, and the handler of \<open>except Exception\<close>, which calls
  the fallback with \<open>str(e)\<close>. \<open>clk\<close> serves the readings of the remote path, \<open>fclk\<close> those of
  the fallback. The result type keeps the exception case for the callers, which handle it.
\<close>

definition analyze_with_github ::
  "engine \<Rightarrow> clock \<Rightarrow> clock \<Rightarrow> string \<Rightarrow> int \<Rightarrow> string option \<Rightarrow> string option \<Rightarrow> string option
     \<Rightarrow> bool \<Rightarrow> exn + analysis"
where
  "analyze_with_github eng clk fclk review rating review_id reviewer_name review_at is_google =
     (case remote_attempt eng clk review rating review_id reviewer_name review_at is_google of
        Inr result \<Rightarrow> Inr (Remote result)
      | Inl e \<Rightarrow> Inr (Fallback (fallback_analysis fclk review rating review_id (str_exn e))))"

section \<open>Analysis store (service/DatabaseManager.py)\<close>

text \<open>A row of the table \<open>sentiment_analysis\<close>, as \<open>get_analysis\<close> returns it.\<close>

record stored_row =
  row_id :: string
  row_review_text :: string
  row_rating :: int
  row_reviewer_name :: "string option"
  row_review_at :: "string option"
  row_sentiment :: string
  row_sentiment_score :: real
  row_themes :: json
  row_analysis_reasons :: json
  row_ai_suggestions :: json
  row_processing_time_ms :: "real option"
  row_source :: "string option"
  row_analyzed_at :: "string option"
  row_updated_at :: "string option"

text \<open>
  The store: whether \<open>get_connection\<close> obtains a connection, and the row the query
  \<open>WHERE id = ...\<close> finds for an id. The state of the connection is taken to be the same for
  all calls of one batch.
\<close>

record database =
  connected :: bool
  rows :: "string \<rightharpoonup> stored_row"

definition get_analysis :: "database \<Rightarrow> string \<Rightarrow> stored_row option" where
  "get_analysis db review_id = (if connected db then rows db review_id else None)"

definition is_analyzed :: "database \<Rightarrow> string \<Rightarrow> string \<Rightarrow> bool" where
  "is_analyzed db review_id review_text =
     (case get_analysis db review_id of
        Some existing \<Rightarrow> row_review_text existing = review_text
      | None \<Rightarrow> False)"

text \<open>
  \<open>save_analysis\<close>. Without a connection it returns \<open>False\<close>. With one it builds the tuple of
  values, reading \<open>result['reviewer_name']\<close>: the dictionary of the fallback has no such key,
  and the \<open>KeyError\<close> is not a MySQL \<open>Error\<close>, so it leaves the function. \<open>execute\<close> stands for
  the server running the upsert and the commit: the new store, or \<open>None\<close> when it raises a
  MySQL \<open>Error\<close>.
\<close>

definition save_analysis ::
  "(database \<Rightarrow> remote_result \<Rightarrow> database option) \<Rightarrow> database \<Rightarrow> analysis
     \<Rightarrow> (exn + bool) \<times> database"
where
  "save_analysis execute db result =
     (if \<not> connected db then (Inr False, db)
      else case result of
             Fallback fb \<Rightarrow> (Inl (KeyError ''reviewer_name''), db)
           | Remote r \<Rightarrow>
               (case execute db r of
                  Some db' \<Rightarrow> (Inr True, db')
                | None \<Rightarrow> (Inr False, db)))"

section \<open>Batch orchestrator (Sentiment.py, smart\_batch\_analyze)\<close>

text \<open>
  A review of the request body. \<open>None\<close> stands for an absent key: the id then defaults to
  \<open>REV\<close> and the position, the text to the empty string, the rating to 3.
\<close>

record batch_review =
  br_id :: "string option"
  br_full_review :: "string option"
  br_rating :: "int option"
  br_reviewer_name :: "string option"
  br_review_date :: "string option"

text \<open>An entry of \<open>reviews_to_analyze\<close>.\<close>

record pending =
  p_review :: string
  p_rating :: int
  p_id :: string
  p_reviewer_name :: "string option"
  p_review_at :: "string option"

text \<open>
  An entry of \<open>results\<close>: a stored row or a fresh analysis, with the keys the orchestrator
  adds (\<open>saved_to_db\<close> is absent on a stored row).
\<close>

datatype payload = Stored stored_row | Analysed analysis

record batch_result =
  item :: payload
  saved_to_db :: "bool option"
  from_cache :: bool

datatype error_entry = ByIndex nat string | ById string string

definition review_id_of :: "nat \<Rightarrow> batch_review \<Rightarrow> string" where
  "review_id_of idx rv = (case br_id rv of Some i \<Rightarrow> i | None \<Rightarrow> ''REV'' @ fmt_03d (idx + 1))"

definition review_text_of :: "batch_review \<Rightarrow> string" where
  "review_text_of rv = (case br_full_review rv of Some t \<Rightarrow> t | None \<Rightarrow> [])"

definition pending_of :: "nat \<Rightarrow> batch_review \<Rightarrow> pending" where
  "pending_of idx rv =
     \<lparr>p_review = review_text_of rv,
      p_rating = (case br_rating rv of Some n \<Rightarrow> n | None \<Rightarrow> 3),
      p_id = review_id_of idx rv,
      p_reviewer_name = br_reviewer_name rv,
      p_review_at = br_review_date rv\<rparr>"

text \<open>
  The body of the first loop (lines 141-162) for the review at position \<open>idx\<close>: what it appends
  to \<open>results\<close>, to \<open>skipped\<close> and to \<open>reviews_to_analyze\<close>.
\<close>

definition check_review ::
  "database \<Rightarrow> bool \<Rightarrow> nat \<Rightarrow> batch_review
     \<Rightarrow> batch_result list \<times> (string \<times> string) list \<times> pending list"
where
  "check_review db force_reanalyze idx rv =
     (let review_id = review_id_of idx rv;
          review_text = review_text_of rv
      in if review_text = [] then ([], [], [])
         else
           (case (if \<not> force_reanalyze \<and> is_analyzed db review_id review_text
                  then get_analysis db review_id else None) of
              Some existing \<Rightarrow>
                ([\<lparr>item = Stored existing, saved_to_db = None, from_cache = True\<rparr>],
                 [(review_id, ''already_analyzed'')],
                 [])
            | None \<Rightarrow> ([], [], [pending_of idx rv])))"

fun check_loop ::
  "database \<Rightarrow> bool \<Rightarrow> nat \<Rightarrow> batch_review list
     \<Rightarrow> batch_result list \<times> (string \<times> string) list \<times> pending list"
where
  "check_loop db force_reanalyze idx [] = ([], [], [])"
| "check_loop db force_reanalyze idx (rv # rest) =
     (case check_review db force_reanalyze idx rv of
        (results, skipped, to_analyze) \<Rightarrow>
          (case check_loop db force_reanalyze (idx + 1) rest of
             (results', skipped', to_analyze') \<Rightarrow>
               (results @ results', skipped @ skipped', to_analyze @ to_analyze')))"

text \<open>
  The engine call for the entry at position \<open>idx\<close> of \<open>reviews_to_analyze\<close>; \<open>clocks idx\<close> gives
  the clock readings of that call, for the remote path and for the fallback.
\<close>

definition run_task ::
  "engine \<Rightarrow> (nat \<Rightarrow> clock \<times> clock) \<Rightarrow> bool \<Rightarrow> nat \<Rightarrow> pending \<Rightarrow> exn + analysis"
where
  "run_task eng clocks is_google idx rv =
     analyze_with_github eng (fst (clocks idx)) (snd (clocks idx))
       (p_review rv) (p_rating rv) (Some (p_id rv)) (p_reviewer_name rv) (p_review_at rv)
       is_google"

text \<open>
  The parallel branch: all tasks are gathered, then the loop over \<open>completed\<close> stores each
  result. An exception of \<open>save_analysis\<close> is not handled in this loop: it ends the branch.
\<close>

fun store_completed ::
  "(database \<Rightarrow> remote_result \<Rightarrow> database option) \<Rightarrow> database \<Rightarrow> nat \<Rightarrow> (exn + analysis) list
     \<Rightarrow> batch_result list \<Rightarrow> error_entry list
     \<Rightarrow> (exn + batch_result list \<times> error_entry list) \<times> database"
where
  "store_completed execute db idx [] results errors = (Inr (results, errors), db)"
| "store_completed execute db idx (Inl e # rest) results errors =
     store_completed execute db (idx + 1) rest results (errors @ [ByIndex idx (str_exn e)])"
| "store_completed execute db idx (Inr result # rest) results errors =
     (case save_analysis execute db result of
        (Inl e, db') \<Rightarrow> (Inl e, db')
      | (Inr db_saved, db') \<Rightarrow>
          store_completed execute db' (idx + 1) rest
            (results @ [\<lparr>item = Analysed result, saved_to_db = Some db_saved, from_cache = False\<rparr>])
            errors)"

definition analyze_parallel ::
  "engine \<Rightarrow> (database \<Rightarrow> remote_result \<Rightarrow> database option) \<Rightarrow> (nat \<Rightarrow> clock \<times> clock) \<Rightarrow> bool
     \<Rightarrow> database \<Rightarrow> pending list
     \<Rightarrow> (exn + batch_result list \<times> error_entry list) \<times> database"
where
  "analyze_parallel eng execute clocks is_google db to_analyze =
     store_completed execute db 0
       (map (\<lambda>(idx, rv). run_task eng clocks is_google idx rv)
            (zip [0..<length to_analyze] to_analyze))
       [] []"

text \<open>
  The sequential branch: each entry is analysed and stored inside its own \<open>try\<close>; an exception
  of either step becomes an entry of \<open>errors\<close>.
\<close>

fun analyze_sequential ::
  "engine \<Rightarrow> (database \<Rightarrow> remote_result \<Rightarrow> database option) \<Rightarrow> (nat \<Rightarrow> clock \<times> clock) \<Rightarrow> bool
     \<Rightarrow> database \<Rightarrow> nat \<Rightarrow> pending list \<Rightarrow> batch_result list \<Rightarrow> error_entry list
     \<Rightarrow> (batch_result list \<times> error_entry list) \<times> database"
where
  "analyze_sequential eng execute clocks is_google db idx [] results errors =
     ((results, errors), db)"
| "analyze_sequential eng execute clocks is_google db idx (rv # rest) results errors =
     (case run_task eng clocks is_google idx rv of
        Inl e \<Rightarrow>
          analyze_sequential eng execute clocks is_google db (idx + 1) rest results
            (errors @ [ById (p_id rv) (str_exn e)])
      | Inr result \<Rightarrow>
          (case save_analysis execute db result of
             (Inl e, db') \<Rightarrow>
               analyze_sequential eng execute clocks is_google db' (idx + 1) rest results
                 (errors @ [ById (p_id rv) (str_exn e)])
           | (Inr db_saved, db') \<Rightarrow>
               analyze_sequential eng execute clocks is_google db' (idx + 1) rest
                 (results
                  @ [\<lparr>item = Analysed result, saved_to_db = Some db_saved, from_cache = False\<rparr>])
                 errors))"

text \<open>The two shapes of the returned dictionary: \<open>success\<close> false with a message, or the outcome.\<close>

record batch_outcome =
  total_reviews :: nat
  processed :: nat
  newly_analyzed :: nat
  from_cache_count :: nat
  failed :: nat
  processing_time_total_ms :: real
  out_results :: "batch_result list"
  out_skipped :: "(string \<times> string) list option"
  out_errors :: "error_entry list option"

datatype response = Failure string | Outcome batch_outcome

text \<open>
  \<open>smart_batch_analyze\<close>, with the request fields \<open>reviews\<close>, \<open>parallel_processing\<close> and
  \<open>force_reanalyze\<close> already read from the body; \<open>t0\<close> and \<open>t1\<close> are the clock readings at its
  start and end. The outer \<open>except Exception\<close> turns an exception into a failure response.
\<close>

definition smart_batch_analyze ::
  "engine \<Rightarrow> (database \<Rightarrow> remote_result \<Rightarrow> database option) \<Rightarrow> (nat \<Rightarrow> clock \<times> clock)
     \<Rightarrow> int \<Rightarrow> int \<Rightarrow> database \<Rightarrow> bool \<Rightarrow> batch_review list \<Rightarrow> bool \<Rightarrow> bool
     \<Rightarrow> response \<times> database"
where
  "smart_batch_analyze eng execute clocks t0 t1 db is_google reviews parallel_processing force_reanalyze =
     (if reviews = [] then (Failure ''reviews array required'', db)
      else
        (case check_loop db force_reanalyze 0 reviews of
           (results, skipped, to_analyze) \<Rightarrow>
             (case (if to_analyze = [] then (Inr ([], []), db)
                    else if parallel_processing
                    then analyze_parallel eng execute clocks is_google db to_analyze
                    else (case analyze_sequential eng execute clocks is_google db 0 to_analyze [] [] of
                            (out, db') \<Rightarrow> (Inr out, db'))) of
                (Inl e, db') \<Rightarrow> (Failure (str_exn e), db')
              | (Inr (new_results, errors), db') \<Rightarrow>
                  (Outcome
                     \<lparr>total_reviews = length reviews,
                      processed = length (results @ new_results),
                      newly_analyzed = length to_analyze,
                      from_cache_count = length skipped,
                      failed = length errors,
                      processing_time_total_ms = round2 (of_int (t1 - t0) / 1000),
                      out_results = results @ new_results,
                      out_skipped = (if skipped \<noteq> [] then Some skipped else None),
                      out_errors = (if errors \<noteq> [] then Some errors else None)\<rparr>,
                   db'))))"

section \<open>Example values\<close>

text \<open>Concrete inputs on which the theorems below are exercised.\<close>

definition example_hash :: "string \<Rightarrow> int" where
  "example_hash t = int (length t)"

definition example_review :: review where
  "example_review =
     \<lparr>r_text = Val ''bagus'', r_reviewText = Missing, r_reviewImageUrls = Missing,
      r_photos = Missing, r_reviewerId = Val ''u1'', r_publishedAtDate = Val ''2024-01-01''\<rparr>"

definition example_scraper :: scraper where
  "example_scraper = \<lparr>scraped_review_ids = Map.empty, cache_file = Some Map.empty\<rparr>"

definition example_fp :: "review \<Rightarrow> string" where
  "example_fp r = (case get_review_id example_hash r of Inr review_id \<Rightarrow> review_id | Inl e \<Rightarrow> [])"

definition example_row :: stored_row where
  "example_row =
     \<lparr>row_id = ''R1'', row_review_text = ''Great service'', row_rating = 5,
      row_reviewer_name = None, row_review_at = None, row_sentiment = ''Positive'',
      row_sentiment_score = 0.8, row_themes = JArr [], row_analysis_reasons = JArr [],
      row_ai_suggestions = JArr [], row_processing_time_ms = None, row_source = None,
      row_analyzed_at = None, row_updated_at = None\<rparr>"

definition example_db :: database where
  "example_db = \<lparr>connected = True, rows = [''R1'' \<mapsto> example_row]\<rparr>"

definition example_request :: "string \<Rightarrow> batch_review" where
  "example_request t =
     \<lparr>br_id = Some ''R1'', br_full_review = Some t, br_rating = Some 5,
      br_reviewer_name = None, br_review_date = None\<rparr>"

definition example_engine :: engine where
  "example_engine = \<lparr>client = None, json_loads = (\<lambda>content. Inl ''Expecting value'')\<rparr>"

definition example_clocks :: "nat \<Rightarrow> clock \<times> clock" where
  "example_clocks idx =
     (\<lparr>t_start = 0, t_end = 1000, t_stamp = 1000\<rparr>, \<lparr>t_start = 1000, t_end = 2000, t_stamp = 2000\<rparr>)"

definition example_execute :: "database \<Rightarrow> remote_result \<Rightarrow> database option" where
  "example_execute db r = Some db"

section \<open>Properties of the review cleaner\<close>

text \<open>
  The loop in closed form: what it leaves in the input list, what it appends to
  \<open>valid_reviews\<close>, and what it adds to each counter.
\<close>

lemma filter_loop_closed:
  "filter_loop rs v st =
     (map (\<lambda>r. if is_valid_review r then cleaned r else r) rs,
      v @ map cleaned (filter is_valid_review rs),
      st\<lparr>valid := valid st + length (filter is_valid_review rs),
         no_text := no_text st
           + length (filter (\<lambda>r. \<not> has_only_images r \<and> strip (text_of r) = []) rs),
         only_images := only_images st + length (filter has_only_images rs),
         too_short := too_short st
           + length (filter (\<lambda>r. \<not> has_only_images r \<and> strip (text_of r) \<noteq> []
                                 \<and> length (strip (text_of r)) < 3) rs)\<rparr>)"
proof (induction rs arbitrary: v st)
  case Nil
  show ?case by simp
next
  case (Cons r rs)
  show ?case
    by (simp add: Cons.IH is_valid_review_def has_only_images_def not_less)
qed

lemma categories_partition:
  "length (filter is_valid_review rs)
     + length (filter (\<lambda>r. \<not> has_only_images r \<and> strip (text_of r) = []) rs)
     + length (filter has_only_images rs)
     + length (filter (\<lambda>r. \<not> has_only_images r \<and> strip (text_of r) \<noteq> []
                           \<and> length (strip (text_of r)) < 3) rs)
   = length rs"
  by (induction rs) (auto simp: is_valid_review_def has_only_images_def)


text \<open>
  Claim C10. For every input list, the statistics returned by \<open>filter_reviews\<close> satisfy
  \<open>total = valid + no_text + only_images + too_short\<close>, \<open>total\<close> is the length of the
  input, and \<open>valid\<close> is the length of the returned \<open>valid_reviews\<close>: every review is counted
  in exactly one category.
\<close>

theorem cleaning_stats_partition:
  "total (stats (filter_reviews reviews))
     = valid (stats (filter_reviews reviews)) + no_text (stats (filter_reviews reviews))
       + only_images (stats (filter_reviews reviews)) + too_short (stats (filter_reviews reviews))
   \<and> total (stats (filter_reviews reviews)) = length reviews
   \<and> valid (stats (filter_reviews reviews)) = length (valid_reviews (filter_reviews reviews))"
  using categories_partition [of reviews]
  by (simp add: filter_reviews_def stats_def valid_reviews_def filter_loop_closed)



section \<open>Properties of the deduplication index\<close>

lemma first_seen_Nil [simp]: "first_seen fp S [] = []"
  by (simp add: first_seen_def)

lemma first_seen_step:
  "first_seen fp S (r # rs) =
     (if fp r \<in> S then [] else [r]) @ first_seen fp (insert (fp r) S) rs"
proof -
  define P where "P = (\<lambda>i. fp ((r # rs) ! i) \<notin> S \<union> fp ` set (take i (r # rs)))"
  define Q where "Q = (\<lambda>i. fp (rs ! i) \<notin> insert (fp r) S \<union> fp ` set (take i rs))"
  have upt: "[0..<length (r # rs)] = 0 # map Suc [0..<length rs]"
    by (simp add: upt_conv_Cons map_Suc_upt del: upt_Suc)
  have P0: "P 0 = (fp r \<notin> S)"
    by (simp add: P_def)
  have PQ: "P (Suc i) = Q i" for i
    by (auto simp: P_def Q_def)
  have "first_seen fp S (r # rs) = map (\<lambda>i. (r # rs) ! i) (filter P (0 # map Suc [0..<length rs]))"
    by (simp only: first_seen_def upt P_def)
  also have "\<dots> = (if fp r \<in> S then [] else [r]) @ map (\<lambda>i. rs ! i) (filter Q [0..<length rs])"
    by (simp add: P0 PQ filter_map comp_def)
  also have "\<dots> = (if fp r \<in> S then [] else [r]) @ first_seen fp (insert (fp r) S) rs"
    by (simp only: first_seen_def Q_def)
  finally show ?thesis .
qed

lemma first_seen_Cons:
  "first_seen fp S (r # rs) =
     (if fp r \<in> S then first_seen fp S rs else r # first_seen fp (insert (fp r) S) rs)"
proof (cases "fp r \<in> S")
  case True
  then have "insert (fp r) S = S" by auto
  with True show ?thesis by (simp add: first_seen_step)
next
  case False
  then show ?thesis by (simp add: first_seen_step)
qed

lemma filter_new_loop_closed:
  "\<forall>r\<in>set rs. get_review_id h r = Inr (fp r) \<Longrightarrow>
     filter_new_loop h rs new S = (Inr (new @ first_seen fp S rs), S \<union> fp ` set rs)"
proof (induction rs arbitrary: new S)
  case Nil
  show ?case by simp
next
  case (Cons r rs)
  then show ?case
    by (auto simp: first_seen_Cons)
qed

lemma first_seen_subseq: "subseq (first_seen fp S rs) rs"
  by (induction rs arbitrary: S) (auto simp: first_seen_Cons)

lemma first_seen_all_seen: "fp ` set rs \<subseteq> S \<Longrightarrow> first_seen fp S rs = []"
  by (induction rs arbitrary: S) (auto simp: first_seen_Cons)

lemma filter_new_reviews_closed:
  assumes "\<forall>r\<in>set reviews. get_review_id h r = Inr (fp r)"
  shows "filter_new_reviews h s reviews place_id =
           (Inr (first_seen fp (ids_of s place_id) reviews),
            s\<lparr>scraped_review_ids :=
                 (scraped_review_ids s)(place_id \<mapsto> ids_of s place_id \<union> fp ` set reviews)\<rparr>)"
  using filter_new_loop_closed [OF assms, of "[]" "ids_of s place_id"]
  by (simp add: filter_new_reviews_def)

text \<open>
  The semantics of the filter on the lists it accepts (in support of claim C5). For every
  list of reviews whose fingerprints can be computed (\<open>fp\<close> names them) and every place,
  \<open>_filter_new_reviews\<close> returns exactly the reviews whose fingerprint is neither in the
  place's set nor carried by an earlier review of the same list, in input order, and leaves
  the place's set enlarged by all fingerprints of the list. A second call with the same
  reviews and place returns nothing and changes nothing; after \<open>reset_cache_for_location\<close>
  the call returns again what it returns on an empty set. For a single review: it is returned
  by the first call when its fingerprint is new, not by the second, and again after the
  reset.
\<close>

theorem dedup_filter_semantics:
  assumes fps: "\<forall>r\<in>set reviews. get_review_id h r = Inr (fp r)"
  shows
    "(let S = ids_of s place_id;
          first = filter_new_reviews h s reviews place_id;
          second = filter_new_reviews h (snd first) reviews place_id;
          after_reset = filter_new_reviews h
             (snd (reset_cache_for_location write_ok (snd first) place_id)) reviews place_id
      in fst first = Inr (first_seen fp S reviews)
       \<and> subseq (first_seen fp S reviews) reviews
       \<and> scraped_review_ids (snd first)
            = (scraped_review_ids s)(place_id \<mapsto> S \<union> fp ` set reviews)
       \<and> second = (Inr [], snd first)
       \<and> fst after_reset = Inr (first_seen fp {} reviews)
       \<and> (reviews = [r] \<longrightarrow>
            (fp r \<notin> S \<longrightarrow> fst first = Inr [r]) \<and> fst after_reset = Inr [r]))"
proof -
  define S where "S = ids_of s place_id"
  define s1 where "s1 = snd (filter_new_reviews h s reviews place_id)"
  define s2 where "s2 = snd (reset_cache_for_location write_ok s1 place_id)"
  have first: "filter_new_reviews h s reviews place_id = (Inr (first_seen fp S reviews), s1)"
    and s1: "s1 = s\<lparr>scraped_review_ids := (scraped_review_ids s)(place_id \<mapsto> S \<union> fp ` set reviews)\<rparr>"
    by (simp_all add: s1_def S_def filter_new_reviews_closed [OF fps])
  have ids1: "ids_of s1 place_id = S \<union> fp ` set reviews"
    by (simp add: s1 ids_of_def)
  have same: "s1\<lparr>scraped_review_ids :=
                  (scraped_review_ids s1)(place_id \<mapsto> (S \<union> fp ` set reviews) \<union> fp ` set reviews)\<rparr> = s1"
    by (simp add: s1 Un_assoc)
  have second: "filter_new_reviews h s1 reviews place_id = (Inr [], s1)"
    by (simp only: filter_new_reviews_closed [OF fps] ids1 same)
       (simp add: first_seen_all_seen)
  have ids2: "ids_of s2 place_id = {}"
    by (simp add: s2_def s1 reset_cache_for_location_def save_cache_def ids_of_def)
  have reset: "fst (filter_new_reviews h s2 reviews place_id) = Inr (first_seen fp {} reviews)"
    by (simp add: filter_new_reviews_closed [OF fps] ids2)
  have single: "first_seen fp {} [r] = [r]" "fp r \<notin> S \<Longrightarrow> first_seen fp S [r] = [r]"
    by (simp_all add: first_seen_Cons)
  have ids: "scraped_review_ids s1 = (scraped_review_ids s)(place_id \<mapsto> S \<union> fp ` set reviews)"
    by (simp add: s1)
  have A: "fst (filter_new_reviews h s reviews place_id) = Inr (first_seen fp S reviews)"
    by (simp add: first)
  have E: "fst (filter_new_reviews h
                 (snd (reset_cache_for_location write_ok
                         (snd (filter_new_reviews h s reviews place_id)) place_id))
                 reviews place_id) = Inr (first_seen fp {} reviews)"
    using reset unfolding s2_def s1_def .
  have last: "reviews = [r] \<longrightarrow>
      (fp r \<notin> S \<longrightarrow> fst (filter_new_reviews h s reviews place_id) = Inr [r])
      \<and> fst (filter_new_reviews h
                 (snd (reset_cache_for_location write_ok
                         (snd (filter_new_reviews h s reviews place_id)) place_id))
                 reviews place_id) = Inr [r]"
    using A E single by auto
  have B: "subseq (first_seen fp S reviews) reviews"
    by (rule first_seen_subseq)
  have C: "scraped_review_ids (snd (filter_new_reviews h s reviews place_id))
             = (scraped_review_ids s)(place_id \<mapsto> S \<union> fp ` set reviews)"
    using ids unfolding s1_def .
  have D: "filter_new_reviews h (snd (filter_new_reviews h s reviews place_id)) reviews place_id
             = (Inr [], snd (filter_new_reviews h s reviews place_id))"
    using second unfolding s1_def .
  show ?thesis
    unfolding Let_def S_def [symmetric]
    by (intro conjI A B C D E last)
qed

lemma example_fingerprint:
  "get_review_id example_hash example_review = Inr ''u1_2024-01-01_5''"
  by code_simp

theorem dedup_filter_semantics_witness:
  "fst (filter_new_reviews example_hash example_scraper [example_review] ''p'') = Inr [example_review]
   \<and> filter_new_reviews example_hash
        (snd (filter_new_reviews example_hash example_scraper [example_review] ''p''))
        [example_review] ''p''
      = (Inr [], snd (filter_new_reviews example_hash example_scraper [example_review] ''p''))
   \<and> fst (filter_new_reviews example_hash
        (snd (reset_cache_for_location True
               (snd (filter_new_reviews example_hash example_scraper [example_review] ''p'')) ''p''))
        [example_review] ''p'') = Inr [example_review]"
  using dedup_filter_semantics [of "[example_review]" example_hash example_fp example_scraper "''p''"
          True example_review]
  by (simp add: Let_def example_fp_def example_fingerprint ids_of_def example_scraper_def
        first_seen_Cons)

lemma example_null_fingerprint:
  "get_review_id example_hash (example_review\<lparr>r_text := Null\<rparr>)
     = Inl (TypeError (CHR 0x27 # ''NoneType'' @ CHR 0x27 # '' object is not subscriptable''))"
  by (simp add: get_review_id_def)

lemma example_null_no_text:
  "no_text (stats (filter_reviews [example_review\<lparr>r_text := Null\<rparr>])) = 1"
  by code_simp

text \<open>
  Claim C5 at a failing input. A review whose \<open>text\<close> entry holds \<open>None\<close> makes
  \<open>_get_review_id\<close> raise \<open>TypeError\<close>, so \<open>_filter_new_reviews\<close> returns no list at all; the
  fingerprint of the review before it is already in the in-memory set, and \<open>scrape_location\<close>
  leaves its \<open>try\<close> block without saving the cache. The cleaner, which runs after this
  step, reads the same entry with \<open>or\<close> and counts such a review under \<open>no_text\<close>.
\<close>

theorem null_text_breaks_filter:
  "fst (filter_new_reviews example_hash example_scraper
          [example_review, example_review\<lparr>r_text := Null\<rparr>] ''p'')
     = Inl (TypeError (CHR 0x27 # ''NoneType'' @ CHR 0x27 # '' object is not subscriptable''))
   \<and> scraped_review_ids
        (snd (filter_new_reviews example_hash example_scraper
                [example_review, example_review\<lparr>r_text := Null\<rparr>] ''p'')) ''p''
     = Some {''u1_2024-01-01_5''}
   \<and> fst (scrape_location_dedup example_hash True example_scraper
            [example_review, example_review\<lparr>r_text := Null\<rparr>] (Some ''p'') True)
     = Inl (TypeError (CHR 0x27 # ''NoneType'' @ CHR 0x27 # '' object is not subscriptable''))
   \<and> cache_file
        (snd (scrape_location_dedup example_hash True example_scraper
                [example_review, example_review\<lparr>r_text := Null\<rparr>] (Some ''p'') True))
     = Some Map.empty
   \<and> no_text (stats (filter_reviews [example_review\<lparr>r_text := Null\<rparr>])) = 1"
  by (simp add: filter_new_reviews_def scrape_location_dedup_def example_fingerprint
        example_null_fingerprint example_null_no_text ids_of_def example_scraper_def)



section \<open>Properties of the sentiment engine\<close>

lemma round_half_even_bounds:
  assumes "- 100 \<le> z" "z \<le> 100"
  shows "- 100 \<le> round_half_even z \<and> round_half_even z \<le> 100"
proof -
  have lo: "- 100 \<le> \<lfloor>z\<rfloor>" using assms(1) by linarith
  have hi: "\<lfloor>z\<rfloor> \<le> 100" using assms(2) by linarith
  have top: "\<lfloor>z\<rfloor> = 100 \<Longrightarrow> z - of_int \<lfloor>z\<rfloor> < 1 / 2" using assms(2) by linarith
  have r: "round_half_even z = \<lfloor>z\<rfloor>
           \<or> (round_half_even z = \<lfloor>z\<rfloor> + 1 \<and> 1 / 2 \<le> z - of_int \<lfloor>z\<rfloor>)"
    by (auto simp: round_half_even_def Let_def)
  then show ?thesis
  proof
    assume eq: "round_half_even z = \<lfloor>z\<rfloor>"
    show ?thesis unfolding eq using lo hi by arith
  next
    assume up: "round_half_even z = \<lfloor>z\<rfloor> + 1 \<and> 1 / 2 \<le> z - of_int \<lfloor>z\<rfloor>"
    with top have "\<lfloor>z\<rfloor> \<noteq> 100" by auto
    with hi have le: "\<lfloor>z\<rfloor> \<le> 99" by linarith
    from up have eq: "round_half_even z = \<lfloor>z\<rfloor> + 1" by simp
    show ?thesis unfolding eq using lo le by arith
  qed
qed

lemma round2_bounds:
  assumes "- 1 \<le> y" "y \<le> 1"
  shows "- 1 \<le> round2 y \<and> round2 y \<le> 1"
proof -
  have "- 100 \<le> round_half_even (y * 100) \<and> round_half_even (y * 100) \<le> 100"
    using assms by (intro round_half_even_bounds) auto
  then have "- 100 \<le> (of_int (round_half_even (y * 100)) :: real)"
    and "(of_int (round_half_even (y * 100)) :: real) \<le> 100"
    by linarith+
  then show ?thesis
    by (simp add: round2_def)
qed

text \<open>
  Claim C3. For every review text and every integer rating, the \<open>sentiment_score\<close> returned
  by the fallback lies in \<open>[-1, 1]\<close> (it is the clamped and rounded \<open>final_score\<close>), where
  \<open>final_score = (pos_score - neg_score) * 0.7 + ((rating - 3) / 2) * 0.3\<close> with both scores
  in \<open>[0, 1]\<close>, and the label is
  Positive when \<open>final_score > 0.2\<close>, Negative when \<open>final_score < -0.2\<close>, and Neutral
  otherwise, the two boundary values included.
\<close>

theorem fallback_score_bounds_and_thresholds:
  "- 1 \<le> fb_sentiment_score (fallback_analysis clk review rating review_id error_msg)
   \<and> fb_sentiment_score (fallback_analysis clk review rating review_id error_msg) \<le> 1
   \<and> fb_sentiment_score (fallback_analysis clk review rating review_id error_msg)
       = round2 (max (- 1) (min 1 (final_score review rating)))
   \<and> final_score review rating
       = (pos_score (lower review) - neg_score (lower review)) * 0.7
         + ((of_int rating - 3) / 2) * 0.3
   \<and> 0 \<le> pos_score (lower review) \<and> pos_score (lower review) \<le> 1
   \<and> 0 \<le> neg_score (lower review) \<and> neg_score (lower review) \<le> 1
   \<and> fb_sentiment (fallback_analysis clk review rating review_id error_msg)
       = (if final_score review rating > 0.2 then ''Positive''
          else if final_score review rating < - 0.2 then ''Negative''
          else ''Neutral'')"
proof -
  have scores: "0 \<le> pos_score (lower review) \<and> pos_score (lower review) \<le> 1
                \<and> 0 \<le> neg_score (lower review) \<and> neg_score (lower review) \<le> 1"
    by (simp add: pos_score_def neg_score_def)
  have "- 1 \<le> round2 (max (- 1) (min 1 (final_score review rating)))
        \<and> round2 (max (- 1) (min 1 (final_score review rating))) \<le> 1"
    by (rule round2_bounds) auto
  with scores show ?thesis
    by (simp add: fallback_analysis_def Let_def sentiment_of_def final_score_def)
qed

text \<open>The boundary is reached: a review whose \<open>final_score\<close> is exactly 0.2 is Neutral.\<close>

lemma threshold_boundary_example:
  "final_score ''Terrible, sangat buruk, parah banget, worst'' 9 = 0.2
   \<and> fb_sentiment (fallback_analysis clk ''Terrible, sangat buruk, parah banget, worst'' 9 None [])
       = ''Neutral''"
  by code_simp

text \<open>
  Claim C6, as the code has it. The fallback gives three reasons for a Neutral review, for a
  Positive one rated 4 or more and for a Negative one rated 2 or less, and two reasons
  otherwise: the reason that quotes the rating is appended only when the rating agrees with
  the label. The remote path returns the \<open>analysis_reasons\<close> value of the parsed model
  response as it is, whatever its length.
\<close>

theorem fallback_reason_count:
  "length (fb_analysis_reasons (fallback_analysis clk review rating review_id error_msg))
     = (if (fb_sentiment (fallback_analysis clk review rating review_id error_msg) = ''Positive''
            \<and> rating < 4)
           \<or> (fb_sentiment (fallback_analysis clk review rating review_id error_msg) = ''Negative''
               \<and> 2 < rating)
        then 2 else 3)
   \<and> (case remote_attempt eng clk review rating review_id reviewer_name review_at is_google of
         Inl e \<Rightarrow> True
       | Inr res \<Rightarrow>
           (\<exists>content parsed.
              json_loads eng content = Inr parsed
              \<and> getitem parsed ''analysis_reasons'' = Inr (rm_analysis_reasons res)))"
  by (auto simp: fallback_analysis_def Let_def reasons_of_def sentiment_of_def remote_attempt_def
        split: option.splits sum.splits)

text \<open>
  Claim C8, as the code has it. Two fallback calls on the same review text and rating agree
  on \<open>review_text\<close>, \<open>rating\<close>, \<open>sentiment\<close>, \<open>sentiment_score\<close>, \<open>themes\<close>,
  \<open>analysis_reasons\<close>, \<open>ai_suggestions\<close> and \<open>source\<close>. The remaining four fields are not
  functions of the pair: \<open>id\<close> and \<open>note\<close> repeat the other two arguments of the call, and
  \<open>processing_time_ms\<close> and \<open>timestamp\<close> are readings of the clock.
\<close>

theorem fallback_determined_fields:
  "fallback_analysis clk2 review rating review_id2 error_msg2
     = (fallback_analysis clk1 review rating review_id1 error_msg1)
         \<lparr>fb_id := review_id2,
          fb_processing_time_ms := processing_time_of clk2,
          fb_timestamp := t_stamp clk2,
          fb_note := (if error_msg2 \<noteq> [] then ''Fallback used: '' @ error_msg2
                      else ''Rule-based analysis'')\<rparr>"
  by (simp add: fallback_analysis_def Let_def)

text \<open>
  Claim C8 as stated (identical in all fields) fails: two calls with the same review text
  and rating at different times differ in \<open>timestamp\<close> and \<open>processing_time_ms\<close>, and two
  calls with a different \<open>review_id\<close> and \<open>error_msg\<close> differ in \<open>id\<close> and \<open>note\<close>.
\<close>

theorem fallback_not_reproducible:
  "fallback_analysis \<lparr>t_start = 0, t_end = 1000, t_stamp = 1000\<rparr> ''bagus'' 5 None []
     \<noteq> fallback_analysis \<lparr>t_start = 2000, t_end = 3500, t_stamp = 3500\<rparr> ''bagus'' 5 None []
   \<and> fallback_analysis \<lparr>t_start = 0, t_end = 1000, t_stamp = 1000\<rparr> ''bagus'' 5 (Some ''R1'') []
     \<noteq> fallback_analysis \<lparr>t_start = 0, t_end = 1000, t_stamp = 1000\<rparr> ''bagus'' 5 (Some ''R2'') ''timeout''"
  by (simp add: fallback_analysis_def Let_def)

text \<open>
  Claim C6 as stated (at least three reasons from either path) fails on both paths: the
  fallback gives two reasons for a Positive review rated 3, and the remote path hands on a
  model response that carries a single reason.
\<close>

theorem fewer_than_three_reasons:
  "length (fb_analysis_reasons
     (fallback_analysis \<lparr>t_start = 0, t_end = 1000, t_stamp = 1000\<rparr> ''bagus baik enak puas'' 3
        (Some ''R1'') [])) = 2
   \<and> fb_sentiment
     (fallback_analysis \<lparr>t_start = 0, t_end = 1000, t_stamp = 1000\<rparr> ''bagus baik enak puas'' 3
        (Some ''R1'') []) = ''Positive''
   \<and> (case analyze_with_github
         \<lparr>client = Some (\<lambda>review rating. Inr ''reply''),
          json_loads = (\<lambda>content.
             if content = ''reply''
             then Inr (JObj [(''sentiment'', JStr ''Positive''), (''sentiment_score'', JNum 0.8),
                             (''themes'', JArr []), (''analysis_reasons'', JArr [JStr ''ok'']),
                             (''ai_suggestions'', JArr [])])
             else Inl ''Expecting value'')\<rparr>
         \<lparr>t_start = 0, t_end = 1000, t_stamp = 1000\<rparr> \<lparr>t_start = 0, t_end = 1000, t_stamp = 1000\<rparr>
         ''bagus'' 5 (Some ''R1'') None None False of
        Inr (Remote res) \<Rightarrow> rm_analysis_reasons res = JArr [JStr ''ok'']
      | _ \<Rightarrow> False)"
  by code_simp



section \<open>Properties of the batch orchestrator\<close>








lemma check_review_shape:
  "check_review db f i rv = (results, skipped, to_analyze) \<Longrightarrow>
     length results = length skipped \<and> filter from_cache results = results
     \<and> length results + length to_analyze \<le> 1"
  by (auto simp: check_review_def Let_def split: if_splits option.splits)

lemma check_loop_shape:
  "check_loop db f k rs = (results, skipped, to_analyze) \<Longrightarrow>
     length results = length skipped \<and> filter from_cache results = results"
proof (induction rs arbitrary: k results skipped to_analyze)
  case Nil
  then show ?case by simp
next
  case (Cons r rs)
  obtain a b c where step: "check_review db f k r = (a, b, c)" by (cases "check_review db f k r")
  obtain a' b' c' where rest: "check_loop db f (k + 1) rs = (a', b', c')"
    by (cases "check_loop db f (k + 1) rs")
  from Cons.IH [OF rest] check_review_shape [OF step] Cons.prems step rest
  show ?case by auto
qed

lemma store_completed_counts:
  "store_completed execute db k cs res errs = (Inr (res', errs'), db') \<Longrightarrow>
     length (filter from_cache res') = length (filter from_cache res)
     \<and> length (filter (\<lambda>r. \<not> from_cache r) res') + length errs'
         = length (filter (\<lambda>r. \<not> from_cache r) res) + length errs + length cs"
proof (induction execute db k cs res errs rule: store_completed.induct)
  case (1 execute db idx results errors)
  then show ?case by simp
next
  case (2 execute db idx e rest results errors)
  then show ?case by simp
next
  case (3 execute db idx result rest results errors)
  then show ?case
    by (auto split: prod.splits sum.splits)
qed

lemma analyze_sequential_counts:
  "analyze_sequential eng execute clocks g db k ps res errs = ((res', errs'), db') \<Longrightarrow>
     length (filter from_cache res') = length (filter from_cache res)
     \<and> length (filter (\<lambda>r. \<not> from_cache r) res') + length errs'
         = length (filter (\<lambda>r. \<not> from_cache r) res) + length errs + length ps"
proof (induction eng execute clocks g db k ps res errs rule: analyze_sequential.induct)
  case (1 eng execute clocks is_google db idx results errors)
  then show ?case by simp
next
  case (2 eng execute clocks is_google db idx rv rest results errors)
  then show ?case
    by (auto split: prod.splits sum.splits)
qed

text \<open>
  What the aggregates of a returned outcome count. Whenever \<open>smart_batch_analyze\<close> returns an
  outcome, \<open>total_reviews\<close> is the length of the input, \<open>processed\<close> the length of \<open>results\<close>,
  \<open>from_cache\<close> the number of results served from the store, \<open>failed\<close> the number of error
  entries, and \<open>newly_analyzed\<close> the number of reviews handed to the engine: those that ended
  in \<open>results\<close> and those that ended in \<open>errors\<close>.
\<close>

lemma batch_outcome_aggregates:
  assumes run: "smart_batch_analyze eng execute clocks t0 t1 db g reviews par force = (Outcome out, db')"
  shows "total_reviews out = length reviews
     \<and> processed out = length (out_results out)
     \<and> from_cache_count out = length (filter from_cache (out_results out))
     \<and> newly_analyzed out = length (filter (\<lambda>r. \<not> from_cache r) (out_results out)) + failed out
     \<and> processed out + failed out = from_cache_count out + newly_analyzed out
     \<and> failed out = (case out_errors out of None \<Rightarrow> 0 | Some es \<Rightarrow> length es)"
proof -
  obtain results skipped to_analyze where
    loop: "check_loop db force 0 reviews = (results, skipped, to_analyze)"
    by (cases "check_loop db force 0 reviews")
  from check_loop_shape [OF loop]
  have cached: "length results = length skipped" "filter from_cache results = results"
    by simp_all
  then have none_new: "filter (\<lambda>r. \<not> from_cache r) results = []"
    by (metis filter_False filter_id_conv)
  define phase where "phase =
    (if to_analyze = [] then (Inr ([], []), db)
     else if par then analyze_parallel eng execute clocks g db to_analyze
     else (case analyze_sequential eng execute clocks g db 0 to_analyze [] [] of
             (res, db'') \<Rightarrow> (Inr res, db'')))"
  from run loop obtain new_results errors where
    phase: "phase = (Inr (new_results, errors), db')"
    and out: "out = \<lparr>total_reviews = length reviews,
                      processed = length (results @ new_results),
                      newly_analyzed = length to_analyze,
                      from_cache_count = length skipped,
                      failed = length errors,
                      processing_time_total_ms = round2 (of_int (t1 - t0) / 1000),
                      out_results = results @ new_results,
                      out_skipped = (if skipped \<noteq> [] then Some skipped else None),
                      out_errors = (if errors \<noteq> [] then Some errors else None)\<rparr>"
    by (auto simp: smart_batch_analyze_def phase_def split: if_splits prod.splits sum.splits)
  have counts: "length (filter from_cache new_results) = 0
     \<and> length (filter (\<lambda>r. \<not> from_cache r) new_results) + length errors = length to_analyze"
  proof (cases "to_analyze = []")
    case True
    with phase show ?thesis by (simp add: phase_def)
  next
    case False
    show ?thesis
    proof (cases par)
      case True
      with False phase have "store_completed execute db 0
          (map (\<lambda>(idx, rv). run_task eng clocks g idx rv) (zip [0..<length to_analyze] to_analyze))
          [] [] = (Inr (new_results, errors), db')"
        by (simp add: phase_def analyze_parallel_def)
      from store_completed_counts [OF this] show ?thesis by simp
    next
      case seq: False
      with False phase have "analyze_sequential eng execute clocks g db 0 to_analyze [] []
          = ((new_results, errors), db')"
        by (auto simp: phase_def split: prod.splits)
      from analyze_sequential_counts [OF this] show ?thesis by simp
    qed
  qed
  have split_new: "length (filter from_cache new_results)
          + length (filter (\<lambda>r. \<not> from_cache r) new_results) = length new_results"
    by (rule sum_length_filter_compl)
  show ?thesis
    using counts cached none_new split_new by (auto simp: out)
qed

text \<open>
  Claim C4 at a failing input. No client is configured, the store is connected, and the batch
  holds one review that needs analysis. The engine falls back; \<open>save_analysis\<close> then raises
  \<open>KeyError\<close> on the fallback's dictionary. In parallel mode the exception reaches the outer
  handler and the whole batch is answered with a failure, without any aggregate. In
  sequential mode the analysed review is booked as failed: \<open>processed = 0\<close>,
  \<open>newly_analyzed = 1\<close>, \<open>failed = 1\<close>.
\<close>

theorem fallback_result_fails_the_batch:
  "fst (smart_batch_analyze example_engine example_execute example_clocks 0 5000 example_db
          False [example_request ''Bad service''] True False)
     = Failure (CHR 0x27 # ''reviewer_name'' @ [CHR 0x27])
   \<and> (case fst (smart_batch_analyze example_engine example_execute example_clocks 0 5000
                  example_db False [example_request ''Bad service''] False False) of
         Failure m \<Rightarrow> False
       | Outcome out \<Rightarrow>
           total_reviews out = 1 \<and> processed out = 0 \<and> newly_analyzed out = 1
           \<and> from_cache_count out = 0 \<and> failed out = 1 \<and> out_results out = []
           \<and> out_errors out = Some [ById ''R1'' (CHR 0x27 # ''reviewer_name'' @ [CHR 0x27])])"
  by (simp add: smart_batch_analyze_def check_review_def example_request_def example_db_def
        example_row_def review_text_of_def review_id_of_def get_analysis_def is_analyzed_def
        pending_of_def analyze_parallel_def run_task_def analyze_with_github_def
        remote_attempt_def example_engine_def save_analysis_def)


end
